theory Spec2Isabelle
  imports Main
begin

section \<open>The hello service of main.py\<close>

text \<open>
  main.py is three statements: line 4 builds the application object
  (\<^verbatim>\<open>app = FastAPI()\<close>), lines 7-9 register \<^verbatim>\<open>read_root\<close> for GET on \<^verbatim>\<open>/\<close>
  and lines 11-13 register \<^verbatim>\<open>create_root\<close> for POST on \<^verbatim>\<open>/\<close>. The two handlers
  are defined in main.py and are embedded from it. The calls \<^verbatim>\<open>FastAPI()\<close>,
  \<^verbatim>\<open>app.get\<close> and \<^verbatim>\<open>app.post\<close> and the handling of a request go to the FastAPI
  library (0.115) and to Starlette (0.46) under it, which are no part of main.py:
  they are embedded from the library's code, each definition naming the function
  it follows.
\<close>

subsection \<open>Data\<close>

text \<open>A Python dict with string keys and string values, in insertion order.\<close>

type_synonym py_dict = "(string \<times> string) list"

text \<open>A raised Python exception, as a value.\<close>

datatype exn = Exception string

text \<open>
  The functions a route can point to: the two handlers of main.py and the four
  endpoints that \<^verbatim>\<open>FastAPI.setup\<close> defines for the documentation routes.
\<close>

datatype endpoint =
    Read_root
  | Create_root
  | Openapi
  | Swagger_ui_html
  | Swagger_ui_redirect
  | Redoc_html

record route =
  route_path :: string
  route_methods :: "string list"
  route_endpoint :: endpoint
  include_in_schema :: bool

text \<open>
  The OpenAPI schema that \<^verbatim>\<open>get_openapi\<close> generates: what varies in it are the
  servers and the routes it documents; title and version are fixed by
  \<^verbatim>\<open>FastAPI()\<close>.
\<close>

record openapi_doc =
  doc_servers :: "string list"
  doc_routes :: "route list"

text \<open>The layers \<^verbatim>\<open>build_middleware_stack\<close> wraps around the router.\<close>

datatype middleware = ServerErrorMiddleware | ExceptionMiddleware

text \<open>
  The program state: main.py has one global, \<^verbatim>\<open>app\<close>. Of the application object
  the state keeps every attribute that handling a request reads or writes: the
  routes, in registration order; \<^verbatim>\<open>middleware_stack\<close>, \<^verbatim>\<open>None\<close> until the first
  request; \<^verbatim>\<open>openapi_schema\<close>, \<^verbatim>\<open>None\<close> until the schema is first asked for;
  \<^verbatim>\<open>servers\<close>; and the set \<^verbatim>\<open>server_urls\<close> that the \<^verbatim>\<open>openapi\<close> endpoint closes
  over.
\<close>

record app_state =
  routes :: "route list"
  middleware_stack :: "middleware list option"
  openapi_schema :: "openapi_doc option"
  servers :: "string list"
  server_urls :: "string list"

text \<open>
  A request as the application receives it: \<^verbatim>\<open>req_path\<close> is the path of the
  ASGI scope, in which the server has already decoded percent escapes
  (\<^verbatim>\<open>/%0A\<close> arrives as \<^verbatim>\<open>/\<close> followed by a newline).
\<close>

record request =
  req_method :: string
  req_path :: string
  req_query :: string
  req_headers :: "(string \<times> string) list"
  req_body :: string

text \<open>
  The scope also carries a root path, which the server takes from its own
  configuration and not from the request. main.py passes none to \<^verbatim>\<open>FastAPI()\<close>
  and configures no server; the root path is the server's default, the empty
  string.
\<close>

definition scope_root_path :: string where
  "scope_root_path = []"

text \<open>
  The pages of the documentation routes, by what their text is built from: the
  URL of the schema and, for Swagger UI, the OAuth2 redirect URL.
\<close>

datatype page =
    Swagger_ui_page string string
  | Oauth2_redirect_page
  | Redoc_page string

text \<open>
  A response body: a JSON object with string values (a handler's dict, or the
  \<^verbatim>\<open>detail\<close> of an HTTP error), the OpenAPI schema as JSON, an HTML page, the
  error list of a failed validation, plain text, or nothing.
\<close>

datatype content =
    Json py_dict
  | Openapi_json openapi_doc
  | Html page
  | Validation_errors "string list"
  | Plain_text string
  | Empty

record response =
  status :: nat
  content :: content

subsection \<open>The handlers (main.py, lines 8-9 and 12-13)\<close>

text \<open>
  A Python function may raise and may change the program state, so a handler is a
  function from the state to a result or an exception, and the state after it.
  Neither handler takes a parameter.
\<close>

type_synonym 'a py = "app_state \<Rightarrow> (exn + 'a) \<times> app_state"

definition read_root :: "py_dict py" where
  "read_root s = (Inr [(''method'', ''GET''), (''message'', ''Hello from GET!'')], s)"

definition create_root :: "py_dict py" where
  "create_root s = (Inr [(''method'', ''POST''), (''message'', ''Hello from POST!'')], s)"

text \<open>
  The declared parameters of an endpoint, which the library validates a request
  against before the call: \<^verbatim>\<open>def read_root():\<close> and \<^verbatim>\<open>def create_root():\<close>
  declare none. The library's own endpoints take the raw request and declare
  nothing to validate.
\<close>

fun endpoint_params :: "endpoint \<Rightarrow> string list" where
  "endpoint_params Read_root = []"
| "endpoint_params Create_root = []"
| "endpoint_params Openapi = []"
| "endpoint_params Swagger_ui_html = []"
| "endpoint_params Swagger_ui_redirect = []"
| "endpoint_params Redoc_html = []"

subsection \<open>Building the application (main.py, lines 4, 7 and 11)\<close>

text \<open>
  \<^verbatim>\<open>FastAPI.__init__\<close> and \<^verbatim>\<open>FastAPI.setup\<close>: with no arguments the defaults
  \<^verbatim>\<open>openapi_url="/openapi.json"\<close>, \<^verbatim>\<open>docs_url="/docs"\<close>,
  \<^verbatim>\<open>swagger_ui_oauth2_redirect_url="/docs/oauth2-redirect"\<close> and
  \<^verbatim>\<open>redoc_url="/redoc"\<close> stand, and \<^verbatim>\<open>setup\<close> adds a route for each of them
  before any route of the application. \<^verbatim>\<open>add_route\<close> makes a Starlette
  \<^verbatim>\<open>Route\<close>, whose methods default to GET with HEAD added, and which is left out
  of the schema.
\<close>

definition framework_route :: "string \<Rightarrow> endpoint \<Rightarrow> route" where
  "framework_route p e =
     \<lparr>route_path = p, route_methods = [''GET'', ''HEAD''], route_endpoint = e,
      include_in_schema = False\<rparr>"

definition FastAPI :: app_state where
  "FastAPI =
     \<lparr>routes =
        [framework_route ''/openapi.json'' Openapi,
         framework_route ''/docs'' Swagger_ui_html,
         framework_route ''/docs/oauth2-redirect'' Swagger_ui_redirect,
         framework_route ''/redoc'' Redoc_html],
      middleware_stack = None,
      openapi_schema = None,
      servers = [],
      server_urls = []\<rparr>"

text \<open>
  \<^verbatim>\<open>FastAPI.add_api_route\<close>, through the decorators \<^verbatim>\<open>@app.get(path)\<close> and
  \<^verbatim>\<open>@app.post(path)\<close>: an \<^verbatim>\<open>APIRoute\<close> for the decorated function is appended,
  with the one method of the decorator (an \<^verbatim>\<open>APIRoute\<close> adds no HEAD).
\<close>

definition add_api_route :: "string \<Rightarrow> endpoint \<Rightarrow> string list \<Rightarrow> app_state \<Rightarrow> app_state" where
  "add_api_route p e ms a =
     a\<lparr>routes := routes a @
        [\<lparr>route_path = p, route_methods = ms, route_endpoint = e,
          include_in_schema = True\<rparr>]\<rparr>"

definition app_get :: "string \<Rightarrow> endpoint \<Rightarrow> app_state \<Rightarrow> app_state" where
  "app_get p e = add_api_route p e [''GET'']"

definition app_post :: "string \<Rightarrow> endpoint \<Rightarrow> app_state \<Rightarrow> app_state" where
  "app_post p e = add_api_route p e [''POST'']"

text \<open>The module body, top to bottom: the state main.py leaves behind once imported.\<close>

definition app :: app_state where
  "app = app_post ''/'' Create_root (app_get ''/'' Read_root FastAPI)"

subsection \<open>Matching a route (Starlette, routing.py)\<close>

text \<open>
  \<^verbatim>\<open>get_route_path\<close>: the path that routes are matched against is the scope's
  path with the root path taken off its front.
\<close>

definition get_route_path :: "string \<Rightarrow> string" where
  "get_route_path p =
     (if scope_root_path = [] then p
      else if take (length scope_root_path) p \<noteq> scope_root_path then p
      else if p = scope_root_path then []
      else if p ! length scope_root_path = CHR ''/'' then drop (length scope_root_path) p
      else p)"

text \<open>
  \<^verbatim>\<open>compile_path\<close> and \<^verbatim>\<open>path_regex.match\<close>: the routes of this program are
  literal paths, compiled to the regular expression \<^verbatim>\<open>^path$\<close>. In Python
  \<^verbatim>\<open>$\<close> matches at the end of the string and also just before a newline that
  ends it, so the expression matches the path itself and the path followed by
  one newline.
\<close>

definition path_regex_match :: "string \<Rightarrow> string \<Rightarrow> bool" where
  "path_regex_match rp p = (p = rp \<or> p = rp @ [CHR 0x0A])"

datatype match = No_match | Partial | Full

text \<open>\<^verbatim>\<open>Route.matches\<close>.\<close>

definition matches :: "route \<Rightarrow> request \<Rightarrow> match" where
  "matches r rq =
     (if path_regex_match (route_path r) (get_route_path (req_path rq))
      then (if route_methods r \<noteq> [] \<and> req_method rq \<notin> set (route_methods r)
            then Partial else Full)
      else No_match)"

subsection \<open>Calling an endpoint\<close>

text \<open>A handler's dict becomes the JSON body (\<^verbatim>\<open>serialize_response\<close>, \<^verbatim>\<open>JSONResponse\<close>).\<close>

definition as_json :: "(exn + py_dict) \<times> app_state \<Rightarrow> (exn + content) \<times> app_state" where
  "as_json r = (case r of (Inr d, s) \<Rightarrow> (Inr (Json d), s) | (Inl e, s) \<Rightarrow> (Inl e, s))"

text \<open>Python's \<^verbatim>\<open>str.rstrip("/")\<close>.\<close>

definition rstrip_slash :: "string \<Rightarrow> string" where
  "rstrip_slash p = rev (dropWhile (\<lambda>c. c = CHR ''/'') (rev p))"

text \<open>
  \<^verbatim>\<open>get_openapi\<close>, called by \<^verbatim>\<open>FastAPI.openapi\<close> with the application's servers
  and routes: it documents the routes that are in the schema.
\<close>

definition get_openapi :: "app_state \<Rightarrow> openapi_doc" where
  "get_openapi a =
     \<lparr>doc_servers = servers a, doc_routes = filter include_in_schema (routes a)\<rparr>"

text \<open>
  \<^verbatim>\<open>FastAPI.openapi\<close>: the schema is generated on the first call and stored in
  \<^verbatim>\<open>openapi_schema\<close>; later calls return what is stored.
\<close>

definition openapi :: "app_state \<Rightarrow> openapi_doc \<times> app_state" where
  "openapi a =
     (case openapi_schema a of
        None \<Rightarrow> (get_openapi a, a\<lparr>openapi_schema := Some (get_openapi a)\<rparr>)
      | Some d \<Rightarrow> (d, a))"

text \<open>
  The endpoints. The two handlers are called with no argument. The \<^verbatim>\<open>openapi\<close>
  endpoint of \<^verbatim>\<open>FastAPI.setup\<close> first records a root path it has not seen, when
  that is not empty, in \<^verbatim>\<open>servers\<close> and \<^verbatim>\<open>server_urls\<close>, then answers with the
  schema. The pages are built from the root path and the default URLs.
\<close>

definition note_root_path :: "app_state \<Rightarrow> app_state" where
  "note_root_path a =
     (if rstrip_slash scope_root_path \<notin> set (server_urls a) \<and> rstrip_slash scope_root_path \<noteq> []
      then a\<lparr>servers := rstrip_slash scope_root_path # servers a,
             server_urls := rstrip_slash scope_root_path # server_urls a\<rparr>
      else a)"

fun call_endpoint :: "endpoint \<Rightarrow> content py" where
  "call_endpoint Read_root s = as_json (read_root s)"
| "call_endpoint Create_root s = as_json (create_root s)"
| "call_endpoint Openapi s =
     (case openapi (note_root_path s) of (d, s') \<Rightarrow> (Inr (Openapi_json d), s'))"
| "call_endpoint Swagger_ui_html s =
     (Inr (Html (Swagger_ui_page (rstrip_slash scope_root_path @ ''/openapi.json'')
                   (rstrip_slash scope_root_path @ ''/docs/oauth2-redirect''))), s)"
| "call_endpoint Swagger_ui_redirect s = (Inr (Html Oauth2_redirect_page), s)"
| "call_endpoint Redoc_html s =
     (Inr (Html (Redoc_page (rstrip_slash scope_root_path @ ''/openapi.json''))), s)"

text \<open>
  The request handler of a matched route (\<^verbatim>\<open>get_request_handler\<close>): the request
  is validated against the endpoint's declared parameters, when it declares any,
  and a failure is answered 422; the validator is the library's and is a
  parameter here. Otherwise the endpoint is called: its result is sent with
  status 200, and an exception becomes the 500 of \<^verbatim>\<open>ServerErrorMiddleware\<close>.
\<close>

type_synonym validator = "string list \<Rightarrow> request \<Rightarrow> bool"

definition run_endpoint :: "validator \<Rightarrow> route \<Rightarrow> app_state \<Rightarrow> request \<Rightarrow> response \<times> app_state" where
  "run_endpoint v r a rq =
     (if endpoint_params (route_endpoint r) = [] \<or> v (endpoint_params (route_endpoint r)) rq
      then (case call_endpoint (route_endpoint r) a of
              (Inr c, a') \<Rightarrow> (\<lparr>status = 200, content = c\<rparr>, a')
            | (Inl e, a') \<Rightarrow>
                (\<lparr>status = 500, content = Plain_text ''Internal Server Error''\<rparr>, a'))
      else (\<lparr>status = 422,
              content = Validation_errors (endpoint_params (route_endpoint r))\<rparr>, a))"

subsection \<open>Handling a request\<close>

text \<open>
  The path the router tries when no route matches: trailing slashes removed, or
  one added.
\<close>

definition toggle_slash :: "string \<Rightarrow> string" where
  "toggle_slash p =
     (if get_route_path p \<noteq> [] \<and> last (get_route_path p) = CHR ''/''
      then rstrip_slash p
      else p @ ''/'')"

text \<open>
  \<^verbatim>\<open>Router.app\<close>: the first route that matches fully handles the request;
  failing that, the first route that matches the path alone answers 405
  (\<^verbatim>\<open>Route.handle\<close>); failing that, a redirect (307, with no body) when toggling
  the trailing slash finds a route; otherwise 404 (\<^verbatim>\<open>Router.not_found\<close>). The
  two errors are raised as \<^verbatim>\<open>HTTPException\<close> and rendered by
  \<^verbatim>\<open>http_exception_handler\<close> as a JSON object with the status phrase as detail.
\<close>

definition router_app :: "validator \<Rightarrow> app_state \<Rightarrow> request \<Rightarrow> response \<times> app_state" where
  "router_app v a rq =
     (case find (\<lambda>r. matches r rq = Full) (routes a) of
        Some r \<Rightarrow> run_endpoint v r a rq
      | None \<Rightarrow>
          (case find (\<lambda>r. matches r rq = Partial) (routes a) of
             Some r \<Rightarrow>
               (\<lparr>status = 405, content = Json [(''detail'', ''Method Not Allowed'')]\<rparr>, a)
           | None \<Rightarrow>
               (if get_route_path (req_path rq) \<noteq> ''/'' \<and>
                   find (\<lambda>r. matches r (rq\<lparr>req_path := toggle_slash (req_path rq)\<rparr>) \<noteq> No_match)
                     (routes a) \<noteq> None
                then (\<lparr>status = 307, content = Empty\<rparr>, a)
                else (\<lparr>status = 404, content = Json [(''detail'', ''Not Found'')]\<rparr>, a))))"

text \<open>\<^verbatim>\<open>Starlette.build_middleware_stack\<close>, with no user middleware.\<close>

definition build_middleware_stack :: "app_state \<Rightarrow> middleware list" where
  "build_middleware_stack a = [ServerErrorMiddleware, ExceptionMiddleware]"

text \<open>
  \<^verbatim>\<open>Starlette.__call__\<close>: the first request builds the middleware stack and
  stores it in the application; then the request goes through it to the router.
\<close>

definition handle_request :: "validator \<Rightarrow> app_state \<Rightarrow> request \<Rightarrow> response \<times> app_state" where
  "handle_request v a rq =
     router_app v
       (case middleware_stack a of
          None \<Rightarrow> a\<lparr>middleware_stack := Some (build_middleware_stack a)\<rparr>
        | Some m \<Rightarrow> a)
       rq"

text \<open>Serving a sequence of requests, one after the other, on the state each leaves.\<close>

fun serve_all :: "validator \<Rightarrow> app_state \<Rightarrow> request list \<Rightarrow> response list \<times> app_state" where
  "serve_all v a [] = ([], a)"
| "serve_all v a (rq # rqs) =
     (case handle_request v a rq of
        (rs, a') \<Rightarrow> (case serve_all v a' rqs of (rss, a'') \<Rightarrow> (rs # rss, a'')))"


text \<open>The methods under which an endpoint is registered in an application.\<close>

definition registered_methods :: "app_state \<Rightarrow> endpoint \<Rightarrow> string list" where
  "registered_methods a e =
     concat (map route_methods (filter (\<lambda>r. route_endpoint r = e) (routes a)))"

text \<open>
  The states the service can be in: the application as main.py built it, but
  for the middleware stack and for the schema, which is either not generated
  yet or the one generated from the application.
\<close>

definition serving :: "app_state \<Rightarrow> bool" where
  "serving a =
     (routes a = routes app \<and> servers a = servers app \<and> server_urls a = server_urls app \<and>
      (openapi_schema a = None \<or> openapi_schema a = Some (get_openapi app)))"

section \<open>Properties\<close>

lemma routes_app:
  "routes app =
     [framework_route ''/openapi.json'' Openapi,
      framework_route ''/docs'' Swagger_ui_html,
      framework_route ''/docs/oauth2-redirect'' Swagger_ui_redirect,
      framework_route ''/redoc'' Redoc_html,
      \<lparr>route_path = ''/'', route_methods = [''GET''], route_endpoint = Read_root,
        include_in_schema = True\<rparr>,
      \<lparr>route_path = ''/'', route_methods = [''POST''], route_endpoint = Create_root,
        include_in_schema = True\<rparr>]"
  by (simp add: app_def app_post_def app_get_def add_api_route_def FastAPI_def)

lemma fields_app:
  "middleware_stack app = None" "openapi_schema app = None"
  "servers app = []" "server_urls app = []"
  by (simp_all add: app_def app_post_def app_get_def add_api_route_def FastAPI_def)


lemma note_root_path_id: "note_root_path a = a"
  by (simp add: note_root_path_def scope_root_path_def rstrip_slash_def)

subsection \<open>Endpoints\<close>

lemma endpoint_params_Nil: "endpoint_params e = []"
  by (cases e) simp_all


lemma call_endpoint_Inr: "\<exists>c. fst (call_endpoint e a) = Inr c"
  by (cases e) (simp_all add: as_json_def read_root_def create_root_def split: prod.splits)



lemma run_endpoint_call:
  "run_endpoint v r a rq =
     (\<lparr>status = 200, content = projr (fst (call_endpoint (route_endpoint r) a))\<rparr>,
      snd (call_endpoint (route_endpoint r) a))"
  using call_endpoint_Inr [of "route_endpoint r" a]
  by (cases "call_endpoint (route_endpoint r) a")
     (auto simp: run_endpoint_def endpoint_params_Nil)



lemma router_app_not_500: "status (fst (router_app v a rq)) \<noteq> 500"
  by (simp add: router_app_def run_endpoint_call split: option.splits)

lemma handle_request_not_500: "status (fst (handle_request v a rq)) \<noteq> 500"
  by (simp add: handle_request_def router_app_not_500)



subsection \<open>History independence\<close>

lemma serving_app: "serving app"
  by (simp add: serving_def fields_app)

lemma get_openapi_serving: "serving a \<Longrightarrow> get_openapi a = get_openapi app"
  by (simp add: serving_def get_openapi_def)

lemma call_endpoint_serving:
  assumes "serving a"
  shows "fst (call_endpoint e a) = fst (call_endpoint e app) \<and> serving (snd (call_endpoint e a))"
proof (cases e)
  case Openapi
  have "openapi_schema a = None \<or> openapi_schema a = Some (get_openapi app)"
    using assms by (simp add: serving_def)
  then show ?thesis
    using assms get_openapi_serving [OF assms]
    by (auto simp: Openapi note_root_path_id openapi_def fields_app serving_def)
qed (use assms in \<open>simp_all add: as_json_def read_root_def create_root_def\<close>)

lemma router_app_serving:
  assumes "serving a"
  shows "fst (router_app v a rq) = fst (router_app v app rq) \<and> serving (snd (router_app v a rq))"
proof -
  have r: "routes a = routes app"
    using assms by (simp add: serving_def)
  show ?thesis
    using assms call_endpoint_serving [OF assms]
    by (simp add: router_app_def r run_endpoint_call split: option.splits)
qed

lemma serving_middleware: "serving a \<Longrightarrow> serving (a\<lparr>middleware_stack := m\<rparr>)"
  by (simp add: serving_def)

lemma entered_serving:
  "serving a \<Longrightarrow>
   serving (case middleware_stack a of
      None \<Rightarrow> a\<lparr>middleware_stack := Some (build_middleware_stack a)\<rparr> | Some m \<Rightarrow> a)"
  by (simp add: serving_middleware split: option.splits)

lemma handle_request_serving:
  assumes "serving a"
  shows "fst (handle_request v a rq) = fst (handle_request v app rq) \<and>
    serving (snd (handle_request v a rq))"
  using router_app_serving [OF entered_serving [OF assms], of v rq]
    router_app_serving [OF entered_serving [OF serving_app], of v rq]
  by (simp add: handle_request_def)

lemma serve_all_serving:
  "serving a \<Longrightarrow> fst (serve_all v a rqs) = map (\<lambda>r. fst (handle_request v app r)) rqs"
proof (induction rqs arbitrary: a)
  case Nil
  show ?case by simp
next
  case (Cons rq rqs)
  obtain rs a' where h: "handle_request v a rq = (rs, a')"
    by (cases "handle_request v a rq")
  from handle_request_serving [OF Cons.prems, of v rq] h
  have rs: "rs = fst (handle_request v app rq)" and a': "serving a'"
    by simp_all
  show ?case
    using Cons.IH [OF a'] by (cases "serve_all v a' rqs") (simp add: h rs)
qed

subsection \<open>Which route a request finds\<close>












subsection \<open>When the status is 2xx\<close>




subsection \<open>The claims\<close>







text \<open>
  C4. Responses are stable: although the first request builds the middleware
  stack and the first request for the schema stores it, serving any sequence of
  requests answers each one with the status and body it would get as the first
  request of all. So a request repeated any number of times gets the same status
  and body every time, also with other requests in between.
\<close>

theorem repeated_requests_identical:
  "fst (serve_all v app (replicate n rq)) = replicate n (fst (handle_request v app rq)) \<and>
   fst (serve_all v app rqs) = map (\<lambda>r. fst (handle_request v app r)) rqs"
  by (simp add: serve_all_serving [OF serving_app] map_replicate_const)






text \<open>
  C7. Neither root handler raises: in every state each returns its constant dict,
  and the service never answers with the status 500 that an exception in an
  endpoint would give.
\<close>

theorem handlers_never_raise:
  "fst (read_root s) = Inr [(''method'', ''GET''), (''message'', ''Hello from GET!'')] \<and>
   fst (create_root s) = Inr [(''method'', ''POST''), (''message'', ''Hello from POST!'')] \<and>
   status (fst (handle_request v app rq)) \<noteq> 500"
  by (simp add: read_root_def create_root_def handle_request_not_500)






text \<open>
  C10. In every state the dict a root handler returns has exactly the two keys
  \<^verbatim>\<open>method\<close> and \<^verbatim>\<open>message\<close>, each once, and its \<^verbatim>\<open>method\<close> entry is the one
  method under which the handler is registered: GET for \<^verbatim>\<open>read_root\<close>, POST for
  \<^verbatim>\<open>create_root\<close>.
\<close>

theorem handler_dict_shape:
  "(case fst (read_root s) of
      Inr d \<Rightarrow> distinct (map fst d) \<and> set (map fst d) = {''method'', ''message''} \<and>
        map Some (registered_methods app Read_root) = [map_of d ''method'']
    | Inl e \<Rightarrow> False) \<and>
   (case fst (create_root s) of
      Inr d \<Rightarrow> distinct (map fst d) \<and> set (map fst d) = {''method'', ''message''} \<and>
        map Some (registered_methods app Create_root) = [map_of d ''method'']
    | Inl e \<Rightarrow> False) \<and>
   registered_methods app Read_root = [''GET''] \<and>
   registered_methods app Create_root = [''POST'']"
proof -
  have g: "registered_methods app Read_root = [''GET'']"
    by (simp add: registered_methods_def routes_app framework_route_def)
  have p: "registered_methods app Create_root = [''POST'']"
    by (simp add: registered_methods_def routes_app framework_route_def)
  have k: "{''message'', ''method''} = {''method'', ''message''}"
    by (rule insert_commute)
  show ?thesis
    by (simp add: g p read_root_def create_root_def k)
qed

end
